theory Spec2Isabelle
  imports Main "HOL-Library.Word"
begin

section \<open>Data model\<close>

text \<open>
  The program is \<^verbatim>\<open>src/index.js\<close>: four Express handlers that relay a prompt, and for
  three of them an uploaded file, to the Gemini SDK. Everything the handlers reach
  outside their own text is made explicit here:
  \<^item> the values of a parsed request body are JavaScript values (\<open>jsval\<close>), and
    \<^verbatim>\<open>req.body\<close> itself is \<^verbatim>\<open>undefined\<close> when no middleware has parsed a body;
  \<^item> \<^verbatim>\<open>upload.single(name)\<close> runs before a media handler and may refuse the request;
  \<^item> the SDK client \<^verbatim>\<open>genAI\<close> is a record of two functions that either return or raise;
  \<^item> the disk is a map from paths to byte sequences;
  \<^item> every \<^verbatim>\<open>res.status(..).json(..)\<close> appends to a log of responses, every call of
    the SDK appends to a log of remote calls, and an error that a middleware passes
    on or that leaves the handler is recorded: it goes to the error handling of
    Express, which is not code of this program.
\<close>

type_synonym byte = "8 word"

datatype jsval =
    JUndefined
  | JNull
  | JBool bool
  | JNum int
  | JStr string
  | JArr "jsval list"
  | JObj "(string \<times> jsval) list"

text \<open>
  JavaScript's \<^verbatim>\<open>!v\<close> is true on the falsy values. The handlers never compute with a
  number, they only test it, so whole numbers stand for all numbers.
\<close>

fun truthy :: "jsval \<Rightarrow> bool" where
  "truthy JUndefined = False"
| "truthy JNull = False"
| "truthy (JBool b) = b"
| "truthy (JNum n) = (n \<noteq> 0)"
| "truthy (JStr s) = (s \<noteq> [])"
| "truthy (JArr xs) = True"
| "truthy (JObj kvs) = True"

text \<open>A thrown \<^verbatim>\<open>Error\<close> object; the handlers read only its \<^verbatim>\<open>message\<close>.\<close>

datatype js_error = Error string

fun message :: "js_error \<Rightarrow> string" where
  "message (Error m) = m"

text \<open>
  The parts of a content, as the SDK builds them: \<^verbatim>\<open>{text}\<close>,
  \<^verbatim>\<open>{inlineData: {data, mimeType}}\<close> and \<^verbatim>\<open>{fileData: {fileUri, mimeType}}\<close>.
\<close>

datatype part =
    TextPart string
  | InlineDataPart string string
  | RemoteFilePart string string

text \<open>A content is a role and its parts.\<close>

datatype content = Content string "part list"

text \<open>
  The \<^verbatim>\<open>contents\<close> argument of \<^verbatim>\<open>generateContent\<close>: the text route passes the prompt
  value as it is, the media routes pass a list of contents.
\<close>

datatype contents = PromptValue jsval | ContentList "content list"

text \<open>What \<^verbatim>\<open>genAI.files.upload\<close> resolves to.\<close>

record remote_file =
  uri :: string
  mimeType :: string

text \<open>
  What \<^verbatim>\<open>generateContent\<close> resolves to. The handlers read \<^verbatim>\<open>result.text\<close>, a getter of
  the SDK that is \<^verbatim>\<open>undefined\<close> when the response has no text part.
\<close>

record gen_result =
  result_text :: "string option"

type_synonym disk = "string \<rightharpoonup> byte list"

text \<open>
  The client \<^verbatim>\<open>genAI\<close>. Both operations are remote and are taken as parameters: each
  returns (\<open>Inr\<close>) or raises (\<open>Inl\<close>). \<^verbatim>\<open>files.upload\<close> is given a path, so what it does
  may depend on the disk.
\<close>

record client =
  files_upload :: "disk \<Rightarrow> string \<Rightarrow> string \<Rightarrow> js_error + remote_file"
  models_generateContent :: "string \<Rightarrow> contents \<Rightarrow> js_error + gen_result"

text \<open>The file that multer stored for the request: \<^verbatim>\<open>req.file\<close>.\<close>

record upload_file =
  path :: string
  mimetype :: string

text \<open>
  A request as the handler of \<^verbatim>\<open>/generate-text\<close> gets it. \<^verbatim>\<open>express.json()\<close> sets
  \<^verbatim>\<open>req.body\<close> to the object it parsed from a JSON body; \<open>Json v\<close> is such an object,
  \<open>v\<close> being its \<^verbatim>\<open>prompt\<close> (\<open>JUndefined\<close> when the key is absent). Nothing in the program
  sets \<^verbatim>\<open>req.body\<close> for a request without a JSON body: with an Express that does not
  do so either, \<^verbatim>\<open>req.body\<close> is \<^verbatim>\<open>undefined\<close>, which is \<open>NoJson\<close>.
\<close>

datatype text_request =
    NoJson
  | Json jsval

text \<open>
  A request as a media handler gets it, after \<^verbatim>\<open>upload.single\<close>. \<open>Form p file\<close> is a
  parsed body: \<open>p\<close> is the text field \<^verbatim>\<open>prompt\<close>, \<open>None\<close> when there is no such field, and
  \<open>file\<close> is \<^verbatim>\<open>req.file\<close>, \<open>None\<close> when no file was stored. \<open>NoForm\<close> is a request whose
  body no middleware parsed: \<^verbatim>\<open>req.body\<close> is \<^verbatim>\<open>undefined\<close>, and so is \<^verbatim>\<open>req.file\<close>. A text
  field of a multipart form is a string; a field sent more than once, which multer
  hands over as an array, is left out.
\<close>

datatype media_request =
    NoForm
  | Form "string option" "upload_file option"

fun prompt_field :: "media_request \<Rightarrow> string option" where
  "prompt_field NoForm = None"
| "prompt_field (Form p stored) = p"

fun req_file :: "media_request \<Rightarrow> upload_file option" where
  "req_file NoForm = None"
| "req_file (Form p stored) = stored"

text \<open>
  A request to a media route as it arrives, before \<^verbatim>\<open>upload.single\<close>. \<open>Multipart p files\<close>
  is a multipart form with the text field \<^verbatim>\<open>prompt\<close> and its file parts, each under its
  field name and with the path and MIME type multer stores it with. \<open>NotMultipart\<close> is
  a request that is neither a multipart form nor JSON. A JSON body sent to a media
  route is parsed to an object and has no file; it is read as a form without file
  parts, since its prompt is not used before the answer.
\<close>

datatype media_upload =
    NotMultipart
  | Multipart "string option" "(string \<times> upload_file) list"

record response =
  status :: nat
  body :: "(string \<times> jsval) list"

datatype remote_call =
    Upload string string
  | Generate string contents

text \<open>
  The state a handler runs in: the disk, the responses the handlers have written so
  far, the remote calls made so far, and the error that went to Express, if any.
\<close>

record world =
  fs :: disk
  sent :: "response list"
  calls :: "remote_call list"
  uncaught :: "js_error option"

definition init :: "disk \<Rightarrow> world" where
  "init d = \<lparr>fs = d, sent = [], calls = [], uncaught = None\<rparr>"

section \<open>Library operations the handlers use\<close>

text \<open>
  \<^verbatim>\<open>res.json(obj)\<close> sends \<^verbatim>\<open>JSON.stringify(obj)\<close>, which leaves out every key whose value
  is \<^verbatim>\<open>undefined\<close>.
\<close>

definition json_body :: "(string \<times> jsval) list \<Rightarrow> (string \<times> jsval) list" where
  "json_body obj = filter (\<lambda>kv. snd kv \<noteq> JUndefined) obj"

definition res_json :: "nat \<Rightarrow> (string \<times> jsval) list \<Rightarrow> world \<Rightarrow> world" where
  "res_json code obj w = w\<lparr>sent := sent w @ [\<lparr>status = code, body = json_body obj\<rparr>]\<rparr>"

definition has_key :: "string \<Rightarrow> response \<Rightarrow> bool" where
  "has_key k r = (k \<in> set (map fst (body r)))"

text \<open>\<^verbatim>\<open>result.text\<close> as a JavaScript value.\<close>

definition text_value :: "gen_result \<Rightarrow> jsval" where
  "text_value r = (case result_text r of None \<Rightarrow> JUndefined | Some t \<Rightarrow> JStr t)"

text \<open>
  An error that no \<^verbatim>\<open>catch\<close> of the program takes: a middleware's \<^verbatim>\<open>next(err)\<close>, or an
  exception that leaves an \<^verbatim>\<open>async\<close> handler. Nothing more of the program runs.
\<close>

definition throw_error :: "js_error \<Rightarrow> world \<Rightarrow> world" where
  "throw_error e w = w\<lparr>uncaught := Some e\<rparr>"

text \<open>
  Destructuring \<^verbatim>\<open>req.body\<close> when it is \<^verbatim>\<open>undefined\<close> raises a \<^verbatim>\<open>TypeError\<close>.
\<close>

definition destructure_error :: js_error where
  "destructure_error =
     Error ''Cannot destructure property prompt of req.body as it is undefined.''"

text \<open>
  multer's \<^verbatim>\<open>upload.single(name)\<close>. A request that is not a multipart form passes
  untouched. Of a multipart form it takes at most one file, under the field \<open>name\<close>:
  a file under another field, or a second file, is refused with the error
  \<^verbatim>\<open>Unexpected field\<close>, and the handler is not run.
\<close>

fun upload_single :: "string \<Rightarrow> media_upload \<Rightarrow> js_error + media_request" where
  "upload_single name NotMultipart = Inr NoForm"
| "upload_single name (Multipart p []) = Inr (Form p None)"
| "upload_single name (Multipart p [(n, f)]) =
     (if n = name then Inr (Form p (Some f)) else Inl (Error ''Unexpected field''))"
| "upload_single name (Multipart p (x # y # files)) = Inl (Error ''Unexpected field'')"

text \<open>Making a remote call is logged.\<close>

definition remote :: "remote_call \<Rightarrow> world \<Rightarrow> world" where
  "remote c w = w\<lparr>calls := calls w @ [c]\<rparr>"

text \<open>The contents of the generation calls made so far, in order.\<close>

fun generated :: "remote_call list \<Rightarrow> contents list" where
  "generated [] = []"
| "generated (Upload p m # cs) = generated cs"
| "generated (Generate m c # cs) = c # generated cs"

text \<open>
  \<^verbatim>\<open>const { prompt = "..." } = req.body\<close>: the default is taken only when the property is
  \<^verbatim>\<open>undefined\<close>, that is, when the form has no field \<^verbatim>\<open>prompt\<close>. (When \<^verbatim>\<open>req.body\<close> itself
  is \<^verbatim>\<open>undefined\<close> the statement raises; that is in the handlers below.)
\<close>

definition prompt_or :: "string \<Rightarrow> string option \<Rightarrow> string" where
  "prompt_or dflt field = (case field of None \<Rightarrow> dflt | Some p \<Rightarrow> p)"

text \<open>
  The SDK's \<^verbatim>\<open>createPartFromUri\<close> and \<^verbatim>\<open>createUserContent\<close>. The latter takes a list of
  strings and parts, turns each string into a text part and keeps the order.
\<close>

datatype part_union = Str string | Prt part

fun to_part :: "part_union \<Rightarrow> part" where
  "to_part (Str s) = TextPart s"
| "to_part (Prt p) = p"

definition createPartFromUri :: "string \<Rightarrow> string \<Rightarrow> part" where
  "createPartFromUri u m = RemoteFilePart u m"

definition createUserContent :: "part_union list \<Rightarrow> content" where
  "createUserContent ps = Content ''user'' (map to_part ps)"

subsection \<open>The file system\<close>

definition existsSync :: "disk \<Rightarrow> string \<Rightarrow> bool" where
  "existsSync d p = (d p \<noteq> None)"

definition readFileSync :: "disk \<Rightarrow> string \<Rightarrow> js_error + byte list" where
  "readFileSync d p =
     (case d p of
        None \<Rightarrow> Inl (Error ''ENOENT: no such file or directory'')
      | Some bytes \<Rightarrow> Inr bytes)"

definition unlinkSync :: "disk \<Rightarrow> string \<Rightarrow> js_error + disk" where
  "unlinkSync d p =
     (if d p = None then Inl (Error ''ENOENT: no such file or directory'')
      else Inr (d(p := None)))"

subsection \<open>Base64, as \<^verbatim>\<open>buffer.toString('base64')\<close> writes it\<close>

text \<open>
  The standard alphabet with \<^verbatim>\<open>=\<close> padding. Three bytes give four characters of six
  bits each; one or two bytes left at the end give two or three characters and padding.
\<close>

definition alphabet :: string where
  "alphabet = ''ABCDEFGHIJKLMNOPQRSTUVWXYZabcdefghijklmnopqrstuvwxyz0123456789+/''"

definition enc_char :: "nat \<Rightarrow> char" where
  "enc_char n = alphabet ! n"

fun base64 :: "byte list \<Rightarrow> string" where
  "base64 [] = []"
| "base64 [a] =
     [enc_char (unat a div 4),
      enc_char (unat a mod 4 * 16),
      CHR ''='', CHR ''='']"
| "base64 [a, b] =
     [enc_char (unat a div 4),
      enc_char (unat a mod 4 * 16 + unat b div 16),
      enc_char (unat b mod 16 * 4),
      CHR ''='']"
| "base64 (a # b # c # rest) =
     enc_char (unat a div 4) #
     enc_char (unat a mod 4 * 16 + unat b div 16) #
     enc_char (unat b mod 16 * 4 + unat c div 64) #
     enc_char (unat c mod 64) # base64 rest"

text \<open>
  The decoder of the same format (RFC 4648), as \<^verbatim>\<open>Buffer.from(s, 'base64')\<close> reads a
  well-formed string; \<open>None\<close> on anything else.
\<close>

definition dec_char :: "char \<Rightarrow> nat option" where
  "dec_char c = map_of (zip alphabet [0..<64]) c"

fun unbase64 :: "string \<Rightarrow> byte list option" where
  "unbase64 [] = Some []"
| "unbase64 (c0 # c1 # c2 # c3 # rest) =
     (case (dec_char c0, dec_char c1) of
        (Some s0, Some s1) \<Rightarrow>
          (if c2 = CHR ''='' then
             (if c3 = CHR ''='' \<and> rest = [] then Some [of_nat (s0 * 4 + s1 div 16)]
              else None)
           else
             (case dec_char c2 of
                None \<Rightarrow> None
              | Some s2 \<Rightarrow>
                  (if c3 = CHR ''='' then
                     (if rest = [] then
                        Some [of_nat (s0 * 4 + s1 div 16), of_nat (s1 mod 16 * 16 + s2 div 4)]
                      else None)
                   else
                     (case (dec_char c3, unbase64 rest) of
                        (Some s3, Some bytes) \<Rightarrow>
                          Some (of_nat (s0 * 4 + s1 div 16) #
                                of_nat (s1 mod 16 * 16 + s2 div 4) #
                                of_nat (s2 mod 4 * 64 + s3) # bytes)
                      | _ \<Rightarrow> None))))
      | _ \<Rightarrow> None)"
| "unbase64 _ = None"

section \<open>The handlers\<close>

definition model_id :: string where
  "model_id = ''gemini-2.0-flash''"

text \<open>
  The part every handler ends its \<^verbatim>\<open>try\<close> block with: call \<^verbatim>\<open>generateContent\<close>; when it
  returns, answer \<^verbatim>\<open>{output: result.text}\<close> with the default status 200; when it raises,
  the \<^verbatim>\<open>catch\<close> block answers 500 with \<^verbatim>\<open>{error: e.message}\<close>.
\<close>

definition generate_and_respond :: "client \<Rightarrow> contents \<Rightarrow> world \<Rightarrow> world" where
  "generate_and_respond genAI cts w =
     (let w1 = remote (Generate model_id cts) w in
      case models_generateContent genAI model_id cts of
        Inr result \<Rightarrow> res_json 200 [(''output'', text_value result)] w1
      | Inl e \<Rightarrow> res_json 500 [(''error'', JStr (message e))] w1)"

text \<open>
  The \<^verbatim>\<open>finally\<close> block of the three media handlers:
  \<^verbatim>\<open>if (req.file && fs.existsSync(req.file.path)) fs.unlinkSync(req.file.path)\<close>.
  An exception of \<^verbatim>\<open>unlinkSync\<close> would leave the handler.
\<close>

definition cleanup :: "media_request \<Rightarrow> world \<Rightarrow> world" where
  "cleanup req w =
     (case req_file req of
        None \<Rightarrow> w
      | Some f \<Rightarrow>
          if existsSync (fs w) (path f) then
            (case unlinkSync (fs w) (path f) of
               Inr d \<Rightarrow> w\<lparr>fs := d\<rparr>
             | Inl e \<Rightarrow> w\<lparr>uncaught := Some e\<rparr>)
          else w)"

subsection \<open>POST /generate-text\<close>

text \<open>
  \<^verbatim>\<open>const { prompt } = req.body\<close> stands before the \<^verbatim>\<open>try\<close>: on an undefined body it raises
  and the exception leaves the handler.
\<close>

definition generate_text :: "client \<Rightarrow> text_request \<Rightarrow> world \<Rightarrow> world" where
  "generate_text genAI req w =
     (case req of
        NoJson \<Rightarrow> throw_error destructure_error w
      | Json prompt \<Rightarrow>
          if \<not> truthy prompt then
            res_json 400 [(''error'', JStr ''Prompt diperlukan.'')] w
          else generate_and_respond genAI (PromptValue prompt) w)"

subsection \<open>POST /generate-from-image\<close>

text \<open>
  In the three media handlers too the destructuring of \<^verbatim>\<open>req.body\<close> stands first,
  before the test of \<^verbatim>\<open>req.file\<close> and outside the \<^verbatim>\<open>try\<close>.
\<close>

definition generate_from_image :: "client \<Rightarrow> media_request \<Rightarrow> world \<Rightarrow> world" where
  "generate_from_image genAI req w =
     (case req of
        NoForm \<Rightarrow> throw_error destructure_error w
      | Form field stored \<Rightarrow>
          (let prompt = prompt_or ''Jelaskan gambar yang diunggah ini.'' field in
           case stored of
             None \<Rightarrow> res_json 400 [(''error'', JStr ''File gambar diperlukan.'')] w
           | Some f \<Rightarrow>
               cleanup req
                 (let w1 = remote (Upload (path f) (mimetype f)) w in
                  case files_upload genAI (fs w) (path f) (mimetype f) of
                    Inl e \<Rightarrow> res_json 500 [(''error'', JStr (message e))] w1
                  | Inr img \<Rightarrow>
                      generate_and_respond genAI
                        (ContentList
                           [createUserContent
                              [Str prompt,
                               Prt (createPartFromUri (uri img) (mimeType img))]])
                        w1)))"

subsection \<open>POST /generate-from-document\<close>

definition generate_from_document :: "client \<Rightarrow> media_request \<Rightarrow> world \<Rightarrow> world" where
  "generate_from_document genAI req w =
     (case req of
        NoForm \<Rightarrow> throw_error destructure_error w
      | Form field stored \<Rightarrow>
          (let prompt = prompt_or ''Jelaskan dokumen yang diunggah ini.'' field in
           case stored of
             None \<Rightarrow> res_json 400 [(''error'', JStr ''File dokumen diperlukan.'')] w
           | Some f \<Rightarrow>
               cleanup req
                 (case readFileSync (fs w) (path f) of
                    Inl e \<Rightarrow> res_json 500 [(''error'', JStr (message e))] w
                  | Inr buffer \<Rightarrow>
                      (let base64Data = base64 buffer;
                           documentPart = InlineDataPart base64Data (mimetype f)
                       in generate_and_respond genAI
                            (ContentList [createUserContent [Str prompt, Prt documentPart]])
                            w))))"

subsection \<open>POST /generate-from-audio\<close>

definition generate_from_audio :: "client \<Rightarrow> media_request \<Rightarrow> world \<Rightarrow> world" where
  "generate_from_audio genAI req w =
     (case req of
        NoForm \<Rightarrow> throw_error destructure_error w
      | Form field stored \<Rightarrow>
          (let prompt = prompt_or ''Jelaskan audio yang diunggah ini.'' field in
           case stored of
             None \<Rightarrow> res_json 400 [(''error'', JStr ''File audio diperlukan.'')] w
           | Some f \<Rightarrow>
               cleanup req
                 (case readFileSync (fs w) (path f) of
                    Inl e \<Rightarrow> res_json 500 [(''error'', JStr (message e))] w
                  | Inr audioBuffer \<Rightarrow>
                      (let base64Audio = base64 audioBuffer;
                           audioPart = InlineDataPart base64Audio (mimetype f)
                       in generate_and_respond genAI
                            (ContentList [createUserContent [Str prompt, Prt audioPart]])
                            w))))"

subsection \<open>The routes\<close>

text \<open>
  \<^verbatim>\<open>app.post(path, upload.single(name), handler)\<close>: the middleware runs first, and the
  handler runs on what it hands over unless it passed an error on.
\<close>

definition via_upload ::
  "string \<Rightarrow> (media_request \<Rightarrow> world \<Rightarrow> world) \<Rightarrow> media_upload \<Rightarrow> world \<Rightarrow> world" where
  "via_upload name handler up w =
     (case upload_single name up of
        Inl e \<Rightarrow> throw_error e w
      | Inr req \<Rightarrow> handler req w)"

text \<open>A request is one of the four paths with what arrives there.\<close>

datatype request =
    GenerateText text_request
  | GenerateFromImage media_upload
  | GenerateFromDocument media_upload
  | GenerateFromAudio media_upload

fun app :: "client \<Rightarrow> request \<Rightarrow> world \<Rightarrow> world" where
  "app genAI (GenerateText req) w = generate_text genAI req w"
| "app genAI (GenerateFromImage up) w = via_upload ''image'' (generate_from_image genAI) up w"
| "app genAI (GenerateFromDocument up) w =
     via_upload ''document'' (generate_from_document genAI) up w"
| "app genAI (GenerateFromAudio up) w = via_upload ''audio'' (generate_from_audio genAI) up w"

section \<open>Shapes the properties speak of\<close>

fun is_media_part :: "part \<Rightarrow> bool" where
  "is_media_part (TextPart t) = False"
| "is_media_part (InlineDataPart dat m) = True"
| "is_media_part (RemoteFilePart u m) = True"

text \<open>
  A contents argument that is one user content of exactly two parts, the text part
  of the given prompt first and a media part second.
\<close>

fun prompt_then_media :: "string \<Rightarrow> contents \<Rightarrow> bool" where
  "prompt_then_media p (ContentList [Content r [TextPart t, mp]]) =
     (r = ''user'' \<and> t = p \<and> is_media_part mp)"
| "prompt_then_media p cts = False"




section \<open>Stub clients and a sample request\<close>

text \<open>
  Three clients for running the handlers on concrete inputs. Each uploads what is on
  the disk; the first answers a fixed text, the second answers without text, the
  third raises on generation.
\<close>

definition stub_upload :: "disk \<Rightarrow> string \<Rightarrow> string \<Rightarrow> js_error + remote_file" where
  "stub_upload d p m =
     (case d p of
        None \<Rightarrow> Inl (Error ''file not found'')
      | Some bytes \<Rightarrow> Inr \<lparr>uri = ''files/abc'', mimeType = m\<rparr>)"

definition stub_text :: "string \<Rightarrow> client" where
  "stub_text t =
     \<lparr>files_upload = stub_upload,
      models_generateContent = (\<lambda>m c. Inr \<lparr>result_text = Some t\<rparr>)\<rparr>"

definition stub_no_text :: client where
  "stub_no_text =
     \<lparr>files_upload = stub_upload,
      models_generateContent = (\<lambda>m c. Inr \<lparr>result_text = None\<rparr>)\<rparr>"

definition stub_raises :: "string \<Rightarrow> client" where
  "stub_raises msg =
     \<lparr>files_upload = stub_upload,
      models_generateContent = (\<lambda>m c. Inl (Error msg))\<rparr>"

definition sample_file :: upload_file where
  "sample_file = \<lparr>path = ''uploads/1'', mimetype = ''image/png''\<rparr>"

definition sample_disk :: disk where
  "sample_disk = [''uploads/1'' \<mapsto> [77, 97, 110]]"

section \<open>Facts about the building blocks\<close>

lemma sent_res_json [simp]:
  "sent (res_json code obj w) = sent w @ [\<lparr>status = code, body = json_body obj\<rparr>]"
  by (simp add: res_json_def)

lemma calls_res_json [simp]: "calls (res_json code obj w) = calls w"
  by (simp add: res_json_def)

lemma fs_res_json [simp]: "fs (res_json code obj w) = fs w"
  by (simp add: res_json_def)

lemma uncaught_res_json [simp]: "uncaught (res_json code obj w) = uncaught w"
  by (simp add: res_json_def)

lemma remote_fields [simp]:
  "sent (remote c w) = sent w"
  "calls (remote c w) = calls w @ [c]"
  "fs (remote c w) = fs w"
  "uncaught (remote c w) = uncaught w"
  by (simp_all add: remote_def)

lemma throw_error_fields [simp]:
  "sent (throw_error e w) = sent w"
  "calls (throw_error e w) = calls w"
  "fs (throw_error e w) = fs w"
  "uncaught (throw_error e w) = Some e"
  by (simp_all add: throw_error_def)

lemma cleanup_logs [simp]:
  "sent (cleanup req w) = sent w"
  "calls (cleanup req w) = calls w"
  by (simp_all add: cleanup_def existsSync_def unlinkSync_def split: option.split)

lemma cleanup_no_file [simp]: "req_file req = None \<Longrightarrow> cleanup req w = w"
  by (simp add: cleanup_def)


lemma cleanup_uncaught [simp]: "uncaught (cleanup req w) = uncaught w"
  by (simp add: cleanup_def existsSync_def unlinkSync_def split: option.split)

lemma json_body_error [simp]: "json_body [(''error'', JStr m)] = [(''error'', JStr m)]"
  by (simp add: json_body_def)

lemma json_body_output [simp]:
  "json_body [(''output'', text_value r)] =
     (case result_text r of None \<Rightarrow> [] | Some t \<Rightarrow> [(''output'', JStr t)])"
  by (simp add: json_body_def text_value_def split: option.split)

lemma generated_append [simp]: "generated (xs @ ys) = generated xs @ generated ys"
  by (induction xs rule: generated.induct) simp_all

lemma generate_and_respond_calls [simp]:
  "calls (generate_and_respond genAI cts w) = calls w @ [Generate model_id cts]"
  by (simp add: generate_and_respond_def Let_def split: sum.split)

lemma generate_and_respond_fs [simp]:
  "fs (generate_and_respond genAI cts w) = fs w"
  "uncaught (generate_and_respond genAI cts w) = uncaught w"
  by (simp_all add: generate_and_respond_def Let_def split: sum.split)

lemma generate_and_respond_sent:
  "sent (generate_and_respond genAI cts w) =
     sent w @
     [case models_generateContent genAI model_id cts of
        Inr result \<Rightarrow>
          \<lparr>status = 200,
           body = (case result_text result of None \<Rightarrow> [] | Some t \<Rightarrow> [(''output'', JStr t)])\<rparr>
      | Inl e \<Rightarrow> \<lparr>status = 500, body = [(''error'', JStr (message e))]\<rparr>]"
  by (simp add: generate_and_respond_def Let_def split: sum.split)

lemma has_key_output_body [simp]:
  "has_key ''output''
     \<lparr>status = code, body = (case t of None \<Rightarrow> [] | Some x \<Rightarrow> [(''output'', JStr x)])\<rparr> =
   (t \<noteq> None)"
  by (cases t) (simp_all add: has_key_def)

lemma output_body_empty [simp]:
  "((case t of None \<Rightarrow> [] | Some x \<Rightarrow> [(''output'', JStr x)]) = []) = (t = None)"
  by (cases t) simp_all

lemma has_key_error_body [simp]:
  "has_key ''error'' \<lparr>status = code, body = [(''error'', v)]\<rparr>"
  by (simp add: has_key_def)

text \<open>A request with a stored file, or with a prompt field, has a parsed body.\<close>

lemma req_file_Some: "req_file req = Some f \<Longrightarrow> \<exists>p. req = Form p (Some f)"
  by (cases req) simp_all

lemma prompt_field_Some: "prompt_field req = Some p \<Longrightarrow> \<exists>stored. req = Form (Some p) stored"
  by (cases req) simp_all

text \<open>What \<^verbatim>\<open>upload.single\<close> lets through, and what it refuses.\<close>

lemma upload_single_cases:
  "upload_single name up = Inr NoForm \<and> up = NotMultipart
   \<or> (\<exists>p. upload_single name up = Inr (Form p None) \<and> up = Multipart p [])
   \<or> (\<exists>p f. upload_single name up = Inr (Form p (Some f)) \<and> up = Multipart p [(name, f)])
   \<or> upload_single name up = Inl (Error ''Unexpected field'')"
  by (induction name up rule: upload_single.induct) simp_all

subsection \<open>Base64\<close>

lemma length_alphabet: "length alphabet = 64"
  by (simp add: alphabet_def)

lemma distinct_alphabet: "distinct alphabet"
  by (simp add: alphabet_def)

lemma dec_enc: "n < 64 \<Longrightarrow> dec_char (enc_char n) = Some n"
  unfolding dec_char_def enc_char_def
  using map_of_zip_nth [of alphabet "[0..<64]" n]
  by (simp add: length_alphabet distinct_alphabet)

lemma dec_pad: "dec_char CHR ''='' = None"
  by (simp add: dec_char_def alphabet_def)

lemma enc_not_pad: "n < 64 \<Longrightarrow> enc_char n \<noteq> CHR ''=''"
  using dec_enc [of n] dec_pad by auto

lemma byte_bound: "unat (a :: byte) < 256"
  using unsigned_less [of a] by simp

lemma byte_of_unat: "of_nat (unat a) = (a :: byte)"
  by simp

lemma sextet_bounds:
  fixes a b c :: byte
  shows "unat a div 4 < 64"
    and "unat a mod 4 * 16 < 64"
    and "unat a mod 4 * 16 + unat b div 16 < 64"
    and "unat b mod 16 * 4 < 64"
    and "unat b mod 16 * 4 + unat c div 64 < 64"
    and "unat c mod 64 < 64"
  using byte_bound [of a] byte_bound [of b] byte_bound [of c] by simp_all

lemma split_div: "r < n \<Longrightarrow> (q * n + r) div n = (q::nat)"
  by simp

lemma split_mod: "r < n \<Longrightarrow> (q * n + r) mod n = (r::nat)"
  by simp

lemma nibble_bounds:
  fixes y :: nat
  assumes "y < 256"
  shows "y div 16 < 16" and "y div 64 < 4"
  using assms by simp_all

text \<open>Taking the bits of three bytes apart into four sextets and putting them back.\<close>

lemma regroup:
  fixes x y z :: nat
  shows "x div 4 * 4 + (x mod 4 * 16) div 16 = x"
    and "y < 256 \<Longrightarrow> x div 4 * 4 + (x mod 4 * 16 + y div 16) div 16 = x"
    and "y < 256 \<Longrightarrow> (x mod 4 * 16 + y div 16) mod 16 * 16 + (y mod 16 * 4) div 4 = y"
    and "y < 256 \<Longrightarrow> z < 256 \<Longrightarrow>
           (x mod 4 * 16 + y div 16) mod 16 * 16 + (y mod 16 * 4 + z div 64) div 4 = y"
    and "z < 256 \<Longrightarrow> (y mod 16 * 4 + z div 64) mod 4 * 64 + z mod 64 = z"
  by (simp_all add: split_div split_mod nibble_bounds)

lemma unbase64_quad:
  assumes "s0 < 64" "s1 < 64" "s2 < 64" "s3 < 64"
  shows "unbase64 (enc_char s0 # enc_char s1 # enc_char s2 # enc_char s3 # cs) =
           (case unbase64 cs of
              None \<Rightarrow> None
            | Some bytes \<Rightarrow>
                Some (of_nat (s0 * 4 + s1 div 16) #
                      of_nat (s1 mod 16 * 16 + s2 div 4) #
                      of_nat (s2 mod 4 * 64 + s3) # bytes))"
  using assms by (simp add: dec_enc enc_not_pad split: option.split)

lemma unbase64_pad1:
  assumes "s0 < 64" "s1 < 64" "s2 < 64"
  shows "unbase64 [enc_char s0, enc_char s1, enc_char s2, CHR ''=''] =
           Some [of_nat (s0 * 4 + s1 div 16), of_nat (s1 mod 16 * 16 + s2 div 4)]"
  using assms by (simp add: dec_enc enc_not_pad)

lemma unbase64_pad2:
  assumes "s0 < 64" "s1 < 64"
  shows "unbase64 [enc_char s0, enc_char s1, CHR ''='', CHR ''=''] =
           Some [of_nat (s0 * 4 + s1 div 16)]"
  using assms by (simp add: dec_enc)

text \<open>The encoder agrees with the usual test vectors.\<close>

lemma base64_examples:
  "base64 [77, 97, 110] = ''TWFu''"
  "base64 [77, 97] = ''TWE=''"
  "base64 [77] = ''TQ==''"
  "base64 [0, 255, 254, 253] = ''AP/+/Q==''"
  "unbase64 ''TWFu'' = Some [77, 97, 110]"
  by code_simp+

section \<open>Properties of the handlers\<close>









text \<open>
  C5. The way the media part is built depends on the route. With a stored file, the
  image route calls the upload with the file's path and declared MIME type and, when
  the upload returns, passes the returned URI and MIME type on as a remote-file part.
  The document and audio routes make no upload: they read the file, and the part they
  pass on is the inline-data part of the base64 text of all its bytes with the declared
  MIME type.
\<close>

theorem strategy_by_route:
  assumes "req_file req = Some f"
  shows "(files_upload genAI (fs w) (path f) (mimetype f) = Inr img \<longrightarrow>
            calls (generate_from_image genAI req w) =
              calls w @
              [Upload (path f) (mimetype f),
               Generate model_id
                 (ContentList
                    [Content ''user''
                       [TextPart (prompt_or ''Jelaskan gambar yang diunggah ini.''
                                    (prompt_field req)),
                        RemoteFilePart (uri img) (mimeType img)]])])
         \<and> (fs w (path f) = Some bytes \<longrightarrow>
            calls (generate_from_document genAI req w) =
              calls w @
              [Generate model_id
                 (ContentList
                    [Content ''user''
                       [TextPart (prompt_or ''Jelaskan dokumen yang diunggah ini.''
                                    (prompt_field req)),
                        InlineDataPart (base64 bytes) (mimetype f)]])])
         \<and> (fs w (path f) = Some bytes \<longrightarrow>
            calls (generate_from_audio genAI req w) =
              calls w @
              [Generate model_id
                 (ContentList
                    [Content ''user''
                       [TextPart (prompt_or ''Jelaskan audio yang diunggah ini.''
                                    (prompt_field req)),
                        InlineDataPart (base64 bytes) (mimetype f)]])])"
proof -
  from assms obtain p where req: "req = Form p (Some f)"
    using req_file_Some by blast
  show ?thesis
    unfolding req
    by (simp add: generate_from_image_def generate_from_document_def generate_from_audio_def
        readFileSync_def createUserContent_def createPartFromUri_def Let_def)
qed

theorem strategy_by_route_witness:
  "req_file (Form (Some ''what'') (Some sample_file)) = Some sample_file
   \<and> files_upload (stub_text ''hi'') sample_disk ''uploads/1'' ''image/png'' =
       Inr \<lparr>uri = ''files/abc'', mimeType = ''image/png''\<rparr>
   \<and> sample_disk ''uploads/1'' = Some [77, 97, 110]
   \<and> calls (generate_from_image (stub_text ''hi'')
         (Form (Some ''what'') (Some sample_file)) (init sample_disk)) =
       [Upload ''uploads/1'' ''image/png'',
        Generate model_id
          (ContentList
             [Content ''user'' [TextPart ''what'', RemoteFilePart ''files/abc'' ''image/png'']])]
   \<and> calls (generate_from_document (stub_text ''hi'')
         (Form (Some ''what'') (Some sample_file)) (init sample_disk)) =
       [Generate model_id
          (ContentList
             [Content ''user''
                [TextPart ''what'', InlineDataPart (base64 [77, 97, 110]) ''image/png'']])]"
  using strategy_by_route
    [of "Form (Some ''what'') (Some sample_file)" sample_file
        "stub_text ''hi''" "init sample_disk"
        "\<lparr>uri = ''files/abc'', mimeType = ''image/png''\<rparr>" "[77, 97, 110]"]
  by (simp add: sample_file_def sample_disk_def stub_text_def stub_upload_def init_def
      prompt_or_def)

text \<open>
  C6. Whatever a media handler passes to the generation call is one user content of
  two parts in this order: the text part of the prompt (the field, or the route's
  default), then the media part. This holds for every generation call the handler
  makes, whatever the client and the disk.
\<close>

theorem contents_prompt_then_media:
  "list_all (prompt_then_media (prompt_or ''Jelaskan gambar yang diunggah ini.'' (prompt_field req)))
     (generated (calls (generate_from_image genAI req (init d))))
   \<and> list_all (prompt_then_media (prompt_or ''Jelaskan dokumen yang diunggah ini.'' (prompt_field req)))
     (generated (calls (generate_from_document genAI req (init d))))
   \<and> list_all (prompt_then_media (prompt_or ''Jelaskan audio yang diunggah ini.'' (prompt_field req)))
     (generated (calls (generate_from_audio genAI req (init d))))"
  by (cases req)
    (simp_all add: generate_from_image_def generate_from_document_def generate_from_audio_def
      createUserContent_def createPartFromUri_def init_def Let_def
      split: option.split sum.split)

theorem contents_prompt_then_media_witness:
  "generated (calls (generate_from_image (stub_text ''hi'')
       (Form (Some ''what'') (Some sample_file)) (init sample_disk))) =
     [ContentList
        [Content ''user'' [TextPart ''what'', RemoteFilePart ''files/abc'' ''image/png'']]]
   \<and> list_all (prompt_then_media ''what'')
       (generated (calls (generate_from_image (stub_text ''hi'')
          (Form (Some ''what'') (Some sample_file)) (init sample_disk))))"
  using contents_prompt_then_media
    [of "Form (Some ''what'') (Some sample_file)" "stub_text ''hi''" sample_disk]
  by (simp add: generate_from_image_def sample_file_def sample_disk_def stub_text_def
      stub_upload_def init_def prompt_or_def createUserContent_def createPartFromUri_def)

text \<open>
  C7. When the form has no prompt field and a file is attached, the request is not
  turned away, and the text part that reaches the generation call is the route's own
  default: \<^verbatim>\<open>Jelaskan gambar yang diunggah ini.\<close> on the image route (once the upload has
  returned), \<^verbatim>\<open>Jelaskan dokumen yang diunggah ini.\<close> on the document route and
  \<^verbatim>\<open>Jelaskan audio yang diunggah ini.\<close> on the audio route (the stored file being there
  to read).
\<close>

theorem default_prompt_applied:
  assumes "prompt_field req = None" and "req_file req = Some f"
  shows "(files_upload genAI d (path f) (mimetype f) = Inr img \<longrightarrow>
            generated (calls (generate_from_image genAI req (init d))) =
              [ContentList
                 [Content ''user''
                    [TextPart ''Jelaskan gambar yang diunggah ini.'',
                     RemoteFilePart (uri img) (mimeType img)]]])
         \<and> (d (path f) = Some bytes \<longrightarrow>
            generated (calls (generate_from_document genAI req (init d))) =
              [ContentList
                 [Content ''user''
                    [TextPart ''Jelaskan dokumen yang diunggah ini.'',
                     InlineDataPart (base64 bytes) (mimetype f)]]])
         \<and> (d (path f) = Some bytes \<longrightarrow>
            generated (calls (generate_from_audio genAI req (init d))) =
              [ContentList
                 [Content ''user''
                    [TextPart ''Jelaskan audio yang diunggah ini.'',
                     InlineDataPart (base64 bytes) (mimetype f)]]])
         \<and> 400 \<notin> set (map status (sent (generate_from_image genAI req (init d))))
         \<and> 400 \<notin> set (map status (sent (generate_from_document genAI req (init d))))
         \<and> 400 \<notin> set (map status (sent (generate_from_audio genAI req (init d))))"
proof -
  from assms have req: "req = Form None (Some f)"
    by (cases req) simp_all
  show ?thesis
    unfolding req
    by (simp add: generate_from_image_def generate_from_document_def generate_from_audio_def
        readFileSync_def createUserContent_def createPartFromUri_def init_def Let_def
        prompt_or_def generate_and_respond_sent split: option.split sum.split)
qed

theorem default_prompt_applied_witness:
  "prompt_field (Form None (Some sample_file)) = None
   \<and> req_file (Form None (Some sample_file)) = Some sample_file
   \<and> sample_disk (path sample_file) = Some [77, 97, 110]
   \<and> generated (calls (generate_from_audio (stub_text ''hi'')
        (Form None (Some sample_file)) (init sample_disk))) =
       [ContentList
          [Content ''user''
             [TextPart ''Jelaskan audio yang diunggah ini.'',
              InlineDataPart (base64 [77, 97, 110]) ''image/png'']]]"
  using default_prompt_applied
    [of "Form None (Some sample_file)" sample_file
        "stub_text ''hi''" sample_disk
        "\<lparr>uri = ''files/abc'', mimeType = ''image/png''\<rparr>" "[77, 97, 110]"]
  by (simp add: sample_file_def sample_disk_def)

text \<open>
  C9. On the media routes an empty prompt field stays empty: with a file attached the
  request is not answered 400, the image route goes on to the upload, and the text
  part that reaches the generation call is the empty string, not the route's default.
  On the text route the same empty prompt is answered 400.
\<close>

theorem empty_prompt_kept:
  assumes "prompt_field req = Some []" and "req_file req = Some f"
  shows "400 \<notin> set (map status (sent (generate_from_image genAI req (init d))))
         \<and> 400 \<notin> set (map status (sent (generate_from_document genAI req (init d))))
         \<and> 400 \<notin> set (map status (sent (generate_from_audio genAI req (init d))))
         \<and> hd (calls (generate_from_image genAI req (init d))) = Upload (path f) (mimetype f)
         \<and> (files_upload genAI d (path f) (mimetype f) = Inr img \<longrightarrow>
              generated (calls (generate_from_image genAI req (init d))) =
                [ContentList
                   [Content ''user'' [TextPart [], RemoteFilePart (uri img) (mimeType img)]]])
         \<and> (d (path f) = Some bytes \<longrightarrow>
              generated (calls (generate_from_document genAI req (init d))) =
                [ContentList
                   [Content ''user'' [TextPart [], InlineDataPart (base64 bytes) (mimetype f)]]])
         \<and> (d (path f) = Some bytes \<longrightarrow>
              generated (calls (generate_from_audio genAI req (init d))) =
                [ContentList
                   [Content ''user'' [TextPart [], InlineDataPart (base64 bytes) (mimetype f)]]])
         \<and> map status (sent (generate_text genAI (Json (JStr [])) (init d))) = [400]"
proof -
  from assms have req: "req = Form (Some []) (Some f)"
    by (cases req) simp_all
  show ?thesis
    unfolding req
    by (simp add: generate_from_image_def generate_from_document_def generate_from_audio_def
        generate_text_def readFileSync_def createUserContent_def createPartFromUri_def
        init_def Let_def prompt_or_def generate_and_respond_sent
        split: option.split sum.split)
qed

theorem empty_prompt_kept_witness:
  "prompt_field (Form (Some []) (Some sample_file)) = Some []
   \<and> req_file (Form (Some []) (Some sample_file)) = Some sample_file
   \<and> sample_disk (path sample_file) = Some [77, 97, 110]
   \<and> generated (calls (generate_from_document (stub_text ''hi'')
        (Form (Some []) (Some sample_file)) (init sample_disk))) =
       [ContentList
          [Content ''user''
             [TextPart [], InlineDataPart (base64 [77, 97, 110]) ''image/png'']]]
   \<and> map status (sent (generate_from_document (stub_text ''hi'')
        (Form (Some []) (Some sample_file)) (init sample_disk))) = [200]"
  using empty_prompt_kept
    [of "Form (Some []) (Some sample_file)" sample_file
        "stub_text ''hi''" sample_disk
        "\<lparr>uri = ''files/abc'', mimeType = ''image/png''\<rparr>" "[77, 97, 110]"]
  by (simp add: sample_file_def sample_disk_def generate_from_document_def readFileSync_def
      generate_and_respond_sent stub_text_def init_def Let_def)

text \<open>
  C2, as the code has it. A generation call that raises is answered 500 with the
  error's message under \<^verbatim>\<open>error\<close>, on every route. A generation call that returns a
  result without text is not an error to the handlers: they answer 200, and since
  \<^verbatim>\<open>output\<close> is \<^verbatim>\<open>undefined\<close> the body is the empty object.
\<close>

theorem generate_outcome:
  assumes "Generate m c \<in> set (calls (app genAI rq (init d)))"
  shows "(models_generateContent genAI m c = Inl e \<longrightarrow>
            sent (app genAI rq (init d)) =
              [\<lparr>status = 500, body = [(''error'', JStr (message e))]\<rparr>])
         \<and> (models_generateContent genAI m c = Inr r \<and> result_text r = None \<longrightarrow>
            sent (app genAI rq (init d)) = [\<lparr>status = 200, body = []\<rparr>])"
proof (cases rq)
  case (GenerateText req)
  with assms show ?thesis
    by (cases req)
      (auto simp: generate_text_def generate_and_respond_sent init_def split: if_splits)
next
  case (GenerateFromImage up)
  with assms show ?thesis
    using upload_single_cases [of "''image''" up]
    by (auto simp: via_upload_def generate_from_image_def generate_and_respond_sent init_def
        Let_def split: sum.splits)
next
  case (GenerateFromDocument up)
  with assms show ?thesis
    using upload_single_cases [of "''document''" up]
    by (auto simp: via_upload_def generate_from_document_def generate_and_respond_sent
        init_def Let_def split: sum.splits)
next
  case (GenerateFromAudio up)
  with assms show ?thesis
    using upload_single_cases [of "''audio''" up]
    by (auto simp: via_upload_def generate_from_audio_def generate_and_respond_sent init_def
        Let_def split: sum.splits)
qed

theorem generate_outcome_witness:
  "Generate model_id (PromptValue (JStr ''hi''))
     \<in> set (calls (app (stub_raises ''quota exceeded'')
                (GenerateText (Json (JStr ''hi''))) (init sample_disk)))
   \<and> models_generateContent (stub_raises ''quota exceeded'') model_id (PromptValue (JStr ''hi'')) =
       Inl (Error ''quota exceeded'')
   \<and> sent (app (stub_raises ''quota exceeded'')
        (GenerateText (Json (JStr ''hi''))) (init sample_disk)) =
       [\<lparr>status = 500, body = [(''error'', JStr ''quota exceeded'')]\<rparr>]"
proof -
  have made: "Generate model_id (PromptValue (JStr ''hi''))
     \<in> set (calls (app (stub_raises ''quota exceeded'')
                (GenerateText (Json (JStr ''hi''))) (init sample_disk)))"
    by (simp add: generate_text_def init_def)
  have raised: "models_generateContent (stub_raises ''quota exceeded'') model_id
      (PromptValue (JStr ''hi'')) = Inl (Error ''quota exceeded'')"
    by (simp add: stub_raises_def)
  from generate_outcome [OF made, of "Error ''quota exceeded''"] made raised
  show ?thesis by simp
qed

text \<open>
  C2, where the specification and the code part. The specification has a result
  without text answered 500. With a client whose generation returns a result without
  text, the text route answers 200 with the empty object.
\<close>

theorem no_text_answered_200_counterexample:
  "models_generateContent stub_no_text model_id (PromptValue (JStr ''hi'')) =
     Inr \<lparr>result_text = None\<rparr>
   \<and> sent (app stub_no_text (GenerateText (Json (JStr ''hi''))) (init sample_disk)) =
       [\<lparr>status = 200, body = []\<rparr>]"
  by (simp add: stub_no_text_def generate_text_def generate_and_respond_sent init_def)




text \<open>
  C8. Decoding the base64 text that the inline strategy writes gives back the bytes
  it was written from, for every byte sequence.
\<close>

theorem base64_round_trip: "unbase64 (base64 bytes) = Some bytes"
proof (induction bytes rule: base64.induct)
  case 1
  show ?case by simp
next
  case (2 a)
  have "unat a div 4 * 4 + unat a mod 4 * 16 div 16 = unat a"
    by (rule regroup(1))
  then show ?case
    by (simp only: base64.simps unbase64_pad2 sextet_bounds byte_of_unat)
next
  case (3 a b)
  have "unat a div 4 * 4 + (unat a mod 4 * 16 + unat b div 16) div 16 = unat a"
    and "(unat a mod 4 * 16 + unat b div 16) mod 16 * 16 + unat b mod 16 * 4 div 4 = unat b"
    by (rule regroup(2) [OF byte_bound], rule regroup(3) [OF byte_bound])
  then show ?case
    by (simp only: base64.simps unbase64_pad1 sextet_bounds byte_of_unat)
next
  case (4 a b c rest)
  have "unat a div 4 * 4 + (unat a mod 4 * 16 + unat b div 16) div 16 = unat a"
    and "(unat a mod 4 * 16 + unat b div 16) mod 16 * 16
           + (unat b mod 16 * 4 + unat c div 64) div 4 = unat b"
    and "(unat b mod 16 * 4 + unat c div 64) mod 4 * 64 + unat c mod 64 = unat c"
    by (rule regroup(2) [OF byte_bound], rule regroup(4) [OF byte_bound byte_bound],
        rule regroup(5) [OF byte_bound])
  then show ?case
    by (simp only: base64.simps unbase64_quad sextet_bounds byte_of_unat "4.IH" option.case)
qed

end
